theory Spec2Isabelle
  imports Main "HOL-Library.Word"
begin

unbundle bit_operations_syntax

section \<open>Data model (trainer_window.h)\<close>

datatype Difficulty = kBeginner | kIntermediate | kAdvanced | kCustom

datatype TrainingMode = kEndless | kTimed | kChallenge | kZen

datatype TrainingType = kSingleKey | kCombo | kSequence | kSpecialKey

text \<open>
  \<^verbatim>\<open>Qt::KeyboardModifiers\<close> is a 32-bit flag set; key codes and counters are C++ \<^verbatim>\<open>int\<close>.
  Key codes are compared only, so they are plain integers here. The round counters are
  incremented by one per judged key press; they are modelled as unbounded integers, which
  agrees with the program as long as a session stays below \<open>2^31 - 1\<close> rounds.
\<close>

type_synonym KeyboardModifiers = "32 word"

record TrainingItem =
  item_type :: TrainingType
  label :: string
  sequence :: string
  item_key :: int
  item_modifiers :: KeyboardModifiers
  min_difficulty :: Difficulty

text \<open>
  \<^verbatim>\<open>SessionRecord\<close>: the source stores \<^verbatim>\<open>duration_seconds\<close> as the double
  \<^verbatim>\<open>ms / 1000.0\<close>; the model keeps the millisecond count \<open>ms\<close> itself.
\<close>

record SessionRecord =
  timestamp :: int
  total_rounds :: int
  correct_rounds :: int
  duration_ms :: int
  rec_difficulty :: Difficulty
  rec_mode :: TrainingMode

text \<open>The key event delivered by Qt: \<^verbatim>\<open>event->key()\<close>, \<^verbatim>\<open>event->text()\<close>, \<^verbatim>\<open>event->modifiers()\<close>.\<close>

record QKeyEvent =
  ev_key :: int
  ev_text :: string
  ev_modifiers :: KeyboardModifiers

text \<open>
  The texts the window shows. The source writes fixed (Chinese) strings into two labels;
  the model names each of them by a constructor carrying the formatted arguments.
\<close>

datatype error_text =
    NoError                     \<comment> \<open>\<^verbatim>\<open>UpdateErrorLabel(QString())\<close>\<close>
  | ExpectedGot char char       \<comment> \<open>expected '%1', got '%2'\<close>
  | PleasePress string          \<comment> \<open>please press %1\<close>
  | CloseWarning                \<comment> \<open>the window cannot be closed while training\<close>

datatype target_text =
    InitialText
  | NoItemText
  | ItemLabel string
  | SeqProgress string int int  \<comment> \<open>label, position, length\<close>
  | PausedText
  | TrainingEndedText
  | TimeUpText
  | ChallengeCompleteText

text \<open>
  The window's state. \<open>elapsed_start\<close> models the \<^verbatim>\<open>QElapsedTimer\<close>: \<open>None\<close> while it is
  invalid, \<open>Some t\<close> when it was last restarted at clock value \<open>t\<close>. \<open>countdown_active\<close>
  says whether the one-second \<^verbatim>\<open>QTimer\<close> is running. \<open>clock\<close> (monotonic milliseconds) and
  \<open>current_date_time\<close> are the environment's clocks the program reads. Widgets that only
  render (statistics label, timer label, progress bar, virtual keyboard) are left out.
\<close>

record TrainerWindow =
  all_items :: "TrainingItem list"
  items :: "TrainingItem list"
  current_index :: int
  sequence_pos :: int
  training :: bool
  paused :: bool
  rounds_total :: int
  rounds_correct :: int
  target_rounds :: int
  time_limit_seconds :: int
  remaining_seconds :: int
  difficulty :: Difficulty
  mode :: TrainingMode
  custom_single_keys :: bool
  custom_special_keys :: bool
  custom_combos :: bool
  custom_sequences :: bool
  elapsed_start :: "int option"
  countdown_active :: bool
  paused_elapsed :: int
  history :: "SessionRecord list"
  pressed_keys :: "int set"
  current_modifiers :: KeyboardModifiers
  error_label :: error_text
  target_label :: target_text
  start_button_enabled :: bool
  stop_button_enabled :: bool
  pause_button_enabled :: bool
  settings_button_enabled :: bool
  clock :: int
  current_date_time :: int

section \<open>Qt constants\<close>

text \<open>The values of the \<^verbatim>\<open>Qt::Key\<close> and \<^verbatim>\<open>Qt::KeyboardModifier\<close> enumerators used by the source.\<close>

definition Key_Space :: int where "Key_Space = 0x20"
definition Key_Exclam :: int where "Key_Exclam = 0x21"
definition Key_NumberSign :: int where "Key_NumberSign = 0x23"
definition Key_Dollar :: int where "Key_Dollar = 0x24"
definition Key_Percent :: int where "Key_Percent = 0x25"
definition Key_0 :: int where "Key_0 = 0x30"
definition Key_At :: int where "Key_At = 0x40"
definition Key_A :: int where "Key_A = 0x41"
definition Key_C :: int where "Key_C = 0x43"
definition Key_D :: int where "Key_D = 0x44"
definition Key_E :: int where "Key_E = 0x45"
definition Key_F :: int where "Key_F = 0x46"
definition Key_Q :: int where "Key_Q = 0x51"
definition Key_R :: int where "Key_R = 0x52"
definition Key_S :: int where "Key_S = 0x53"
definition Key_V :: int where "Key_V = 0x56"
definition Key_W :: int where "Key_W = 0x57"
definition Key_X :: int where "Key_X = 0x58"
definition Key_Z :: int where "Key_Z = 0x5a"
definition Key_Escape :: int where "Key_Escape = 0x01000000"
definition Key_Tab :: int where "Key_Tab = 0x01000001"
definition Key_Shift :: int where "Key_Shift = 0x01000020"
definition Key_Control :: int where "Key_Control = 0x01000021"
definition Key_Meta :: int where "Key_Meta = 0x01000022"
definition Key_Alt :: int where "Key_Alt = 0x01000023"
definition Key_CapsLock :: int where "Key_CapsLock = 0x01000024"
definition Key_F1 :: int where "Key_F1 = 0x01000030"
definition Key_F2 :: int where "Key_F2 = 0x01000031"
definition Key_F3 :: int where "Key_F3 = 0x01000032"
definition Key_F4 :: int where "Key_F4 = 0x01000033"
definition Key_F5 :: int where "Key_F5 = 0x01000034"
definition Key_F6 :: int where "Key_F6 = 0x01000035"
definition Key_F7 :: int where "Key_F7 = 0x01000036"
definition Key_F8 :: int where "Key_F8 = 0x01000037"

definition NoModifier :: KeyboardModifiers where "NoModifier = 0"
definition ShiftModifier :: KeyboardModifiers where "ShiftModifier = 0x02000000"
definition ControlModifier :: KeyboardModifiers where "ControlModifier = 0x04000000"
definition AltModifier :: KeyboardModifiers where "AltModifier = 0x08000000"
definition MetaModifier :: KeyboardModifiers where "MetaModifier = 0x10000000"
definition KeypadModifier :: KeyboardModifiers where "KeypadModifier = 0x20000000"

section \<open>Strings\<close>

text \<open>
  \<^verbatim>\<open>QString::toLower\<close> and \<^verbatim>\<open>toUpper\<close> on 8-bit characters: the ASCII letters and the
  Latin-1 letters with a one-to-one case mapping inside Latin-1. Everything else is unchanged.
\<close>

definition toLower_char :: "char \<Rightarrow> char" where
  "toLower_char c =
     (let n = (of_char c :: nat) in
      if (0x41 \<le> n \<and> n \<le> 0x5a) \<or> (0xc0 \<le> n \<and> n \<le> 0xde \<and> n \<noteq> 0xd7)
      then char_of (n + 0x20) else c)"

definition toUpper_char :: "char \<Rightarrow> char" where
  "toUpper_char c =
     (let n = (of_char c :: nat) in
      if (0x61 \<le> n \<and> n \<le> 0x7a) \<or> (0xe0 \<le> n \<and> n \<le> 0xfe \<and> n \<noteq> 0xf7)
      then char_of (n - 0x20) else c)"

definition toLower :: "string \<Rightarrow> string" where
  "toLower str = map toLower_char str"

definition toUpper :: "string \<Rightarrow> string" where
  "toUpper str = map toUpper_char str"

section \<open>TrainingItem factories\<close>

definition MakeSingleKey :: "char \<Rightarrow> Difficulty \<Rightarrow> TrainingItem" where
  "MakeSingleKey ch diff =
     \<lparr> item_type = kSingleKey, label = toUpper [ch], sequence = toLower [ch],
       item_key = 0, item_modifiers = NoModifier, min_difficulty = diff \<rparr>"

definition MakeSequence :: "string \<Rightarrow> Difficulty \<Rightarrow> TrainingItem" where
  "MakeSequence seq diff =
     \<lparr> item_type = kSequence, label = toUpper seq, sequence = toLower seq,
       item_key = 0, item_modifiers = NoModifier, min_difficulty = diff \<rparr>"

definition MakeCombo :: "KeyboardModifiers \<Rightarrow> int \<Rightarrow> string \<Rightarrow> Difficulty \<Rightarrow> TrainingItem" where
  "MakeCombo mods k lbl diff =
     \<lparr> item_type = kCombo, label = lbl, sequence = [],
       item_key = k, item_modifiers = mods, min_difficulty = diff \<rparr>"

definition MakeSpecialKey :: "int \<Rightarrow> string \<Rightarrow> Difficulty \<Rightarrow> TrainingItem" where
  "MakeSpecialKey k lbl diff =
     \<lparr> item_type = kSpecialKey, label = lbl, sequence = [],
       item_key = k, item_modifiers = NoModifier, min_difficulty = diff \<rparr>"

section \<open>The catalog (InitAllTrainingItems)\<close>

text \<open>\<^verbatim>\<open>QStringLiteral("Ctrl+%1").arg(i)\<close> for a single decimal digit \<open>i\<close>.\<close>

definition ctrl_label :: "int \<Rightarrow> string" where
  "ctrl_label i = ''Ctrl+'' @ [char_of (48 + nat i)]"

definition shift_combos :: "(int \<times> string \<times> Difficulty) list" where
  "shift_combos =
     [(Key_Exclam, ''Shift+1'', kIntermediate), (Key_At, ''Shift+2'', kIntermediate),
      (Key_NumberSign, ''Shift+3'', kIntermediate), (Key_Dollar, ''Shift+4'', kIntermediate),
      (Key_Percent, ''Shift+5'', kIntermediate)]"

definition basic_sequences :: "string list" where
  "basic_sequences =
     [''1a'', ''2a'', ''3a'', ''1s'', ''2s'', ''3s'', ''1d'', ''2d'', ''3d'', ''1q'', ''2q'', ''3q'']"

definition advanced_sequences :: "string list" where
  "advanced_sequences =
     [''1aa'', ''2aa'', ''3aa'', ''1ss'', ''2ss'', ''3ss'', ''1qqqq'', ''2ww'', ''3ee'',
      ''qwer'', ''asdf'', ''zxcv'', ''wasd'', ''1a2a'', ''1s2s'', ''4sd'', ''5vv'', ''1a2a3a'',
      ''qqqq'', ''aaaa'', ''ssss'', ''1234'', ''5432'', ''qwert'', ''asdfg'', ''zxcvb'']"

definition catalog :: "TrainingItem list" where
  "catalog =
     map (\<lambda>ch. MakeSingleKey ch kBeginner) ''12345qwertasdfgzxcvb''
     @ map (\<lambda>ch. MakeSingleKey ch kIntermediate) ''67yhun''
     @ [MakeSpecialKey Key_Space ''Space'' kBeginner,
        MakeSpecialKey Key_Tab ''Tab'' kIntermediate,
        MakeSpecialKey Key_CapsLock ''Caps'' kIntermediate,
        MakeSpecialKey Key_F1 ''F1'' kIntermediate,
        MakeSpecialKey Key_F2 ''F2'' kIntermediate,
        MakeSpecialKey Key_F3 ''F3'' kIntermediate,
        MakeSpecialKey Key_F4 ''F4'' kIntermediate,
        MakeSpecialKey Key_F5 ''F5'' kAdvanced,
        MakeSpecialKey Key_F6 ''F6'' kAdvanced,
        MakeSpecialKey Key_F7 ''F7'' kAdvanced,
        MakeSpecialKey Key_F8 ''F8'' kAdvanced]
     @ map (\<lambda>i. MakeCombo ControlModifier (Key_0 + i) (ctrl_label i) kIntermediate) [1..5]
     @ map (\<lambda>i. MakeCombo ControlModifier (Key_0 + i) (ctrl_label i) kAdvanced) [6..9]
     @ [MakeCombo ControlModifier Key_0 ''Ctrl+0'' kAdvanced]
     @ map (\<lambda>(k, lbl, diff). MakeCombo ShiftModifier k lbl diff) shift_combos
     @ [MakeCombo ControlModifier Key_Q ''Ctrl+Q'' kIntermediate,
        MakeCombo ControlModifier Key_W ''Ctrl+W'' kIntermediate,
        MakeCombo ControlModifier Key_E ''Ctrl+E'' kIntermediate,
        MakeCombo ControlModifier Key_R ''Ctrl+R'' kIntermediate,
        MakeCombo ControlModifier Key_A ''Ctrl+A'' kIntermediate,
        MakeCombo ControlModifier Key_S ''Ctrl+S'' kIntermediate,
        MakeCombo ControlModifier Key_D ''Ctrl+D'' kIntermediate,
        MakeCombo ControlModifier Key_F ''Ctrl+F'' kIntermediate,
        MakeCombo ControlModifier Key_Z ''Ctrl+Z'' kIntermediate,
        MakeCombo ControlModifier Key_X ''Ctrl+X'' kIntermediate,
        MakeCombo ControlModifier Key_C ''Ctrl+C'' kIntermediate,
        MakeCombo ControlModifier Key_V ''Ctrl+V'' kIntermediate,
        MakeCombo ShiftModifier Key_Q ''Shift+Q'' kAdvanced,
        MakeCombo ShiftModifier Key_W ''Shift+W'' kAdvanced,
        MakeCombo ShiftModifier Key_E ''Shift+E'' kAdvanced,
        MakeCombo ShiftModifier Key_R ''Shift+R'' kAdvanced,
        MakeCombo ShiftModifier Key_A ''Shift+A'' kAdvanced,
        MakeCombo ShiftModifier Key_S ''Shift+S'' kAdvanced,
        MakeCombo AltModifier Key_F1 ''Alt+F1'' kAdvanced,
        MakeCombo AltModifier Key_F2 ''Alt+F2'' kAdvanced,
        MakeCombo AltModifier Key_F3 ''Alt+F3'' kAdvanced,
        MakeCombo AltModifier Key_F4 ''Alt+F4'' kAdvanced]
     @ map (\<lambda>seq. MakeSequence seq kIntermediate) basic_sequences
     @ map (\<lambda>seq. MakeSequence seq kAdvanced) advanced_sequences"

definition InitAllTrainingItems :: "TrainerWindow \<Rightarrow> TrainerWindow" where
  "InitAllTrainingItems s = s\<lparr>all_items := catalog\<rparr>"

section \<open>Difficulty filter (FilterItemsByDifficulty)\<close>

definition include_item :: "TrainerWindow \<Rightarrow> TrainingItem \<Rightarrow> bool" where
  "include_item s item =
     (case difficulty s of
        kBeginner \<Rightarrow> min_difficulty item = kBeginner
      | kIntermediate \<Rightarrow> min_difficulty item = kBeginner \<or> min_difficulty item = kIntermediate
      | kAdvanced \<Rightarrow> True
      | kCustom \<Rightarrow>
          (case item_type item of
             kSingleKey \<Rightarrow> custom_single_keys s
           | kSpecialKey \<Rightarrow> custom_special_keys s
           | kCombo \<Rightarrow> custom_combos s
           | kSequence \<Rightarrow> custom_sequences s))"

definition FilterItemsByDifficulty :: "TrainerWindow \<Rightarrow> TrainerWindow" where
  "FilterItemsByDifficulty s =
     (let selected = filter (include_item s) (all_items s)
      in s\<lparr>items := (if selected = [] then all_items s else selected)\<rparr>)"

section \<open>Display helpers\<close>

definition UpdateErrorLabel :: "error_text \<Rightarrow> TrainerWindow \<Rightarrow> TrainerWindow" where
  "UpdateErrorLabel txt s = s\<lparr>error_label := txt\<rparr>"

text \<open>\<^verbatim>\<open>items_.at(current_index_)\<close>; every caller checks the index first.\<close>

definition current_item :: "TrainerWindow \<Rightarrow> TrainingItem" where
  "current_item s = items s ! nat (current_index s)"

definition ShowCurrentItem :: "TrainerWindow \<Rightarrow> TrainerWindow" where
  "ShowCurrentItem s =
     (if current_index s < 0 \<or> current_index s \<ge> int (length (items s))
      then s\<lparr>target_label := NoItemText\<rparr>
      else let item = current_item s in
        if item_type item = kSequence
        then s\<lparr>target_label := SeqProgress (label item) 0 (int (length (sequence item)))\<rparr>
        else s\<lparr>target_label := ItemLabel (label item)\<rparr>)"

text \<open>
  \<^verbatim>\<open>QRandomGenerator::global()->bounded(n)\<close> returns some value in \<open>[0, n)\<close>; the model
  takes the generator's raw draw \<open>rnd\<close> as an input of every operation that picks an item.
\<close>

definition bounded :: "nat \<Rightarrow> nat \<Rightarrow> int" where
  "bounded rnd n = int (rnd mod n)"

definition NextItem :: "nat \<Rightarrow> TrainerWindow \<Rightarrow> TrainerWindow" where
  "NextItem rnd s =
     (if items s = [] then s
      else ShowCurrentItem (UpdateErrorLabel NoError
             (s\<lparr>current_index := bounded rnd (length (items s)), sequence_pos := 0\<rparr>)))"

section \<open>Elapsed time\<close>

text \<open>
  \<^verbatim>\<open>elapsed_->elapsed()\<close> and \<^verbatim>\<open>elapsed_->restart()\<close>. Qt leaves \<^verbatim>\<open>elapsed()\<close> of an invalid
  timer unspecified; the program reads it only after a restart, and the model returns 0.
\<close>

definition elapsed :: "TrainerWindow \<Rightarrow> int" where
  "elapsed s = (case elapsed_start s of None \<Rightarrow> 0 | Some t \<Rightarrow> clock s - t)"

definition elapsed_restart :: "TrainerWindow \<Rightarrow> TrainerWindow" where
  "elapsed_restart s = s\<lparr>elapsed_start := Some (clock s)\<rparr>"

text \<open>The millisecond count \<^verbatim>\<open>ms\<close> that \<^verbatim>\<open>UpdateStatsLabel\<close> and \<^verbatim>\<open>UpdateTimerLabel\<close> compute.\<close>

definition stats_elapsed_ms :: "TrainerWindow \<Rightarrow> int" where
  "stats_elapsed_ms s =
     (if elapsed_start s \<noteq> None
      then (if paused s then paused_elapsed s else elapsed s + paused_elapsed s)
      else 0)"

section \<open>History (SaveSessionRecord)\<close>

definition kMaxHistoryRecords :: int where
  "kMaxHistoryRecords = 100"

text \<open>The loop \<^verbatim>\<open>while (history_.size() > kMaxHistoryRecords) history_.removeLast();\<close>\<close>

function trim_history :: "SessionRecord list \<Rightarrow> SessionRecord list" where
  "trim_history h =
     (if int (length h) > kMaxHistoryRecords then trim_history (butlast h) else h)"
  by pat_completeness auto
termination
  by (relation "measure length") (auto simp: kMaxHistoryRecords_def)

declare trim_history.simps [simp del]

definition make_record :: "TrainerWindow \<Rightarrow> SessionRecord" where
  "make_record s =
     \<lparr> timestamp = current_date_time s,
       total_rounds = rounds_total s,
       correct_rounds = rounds_correct s,
       duration_ms = elapsed s + paused_elapsed s,
       rec_difficulty = difficulty s,
       rec_mode = mode s \<rparr>"

text \<open>\<^verbatim>\<open>history_.prepend(record)\<close> followed by the trimming loop.\<close>

definition prepend_record :: "SessionRecord \<Rightarrow> SessionRecord list \<Rightarrow> SessionRecord list" where
  "prepend_record r h = trim_history (r # h)"

definition SaveSessionRecord :: "TrainerWindow \<Rightarrow> TrainerWindow" where
  "SaveSessionRecord s = s\<lparr>history := prepend_record (make_record s) (history s)\<rparr>"

section \<open>Session control\<close>

definition StartTraining :: "nat \<Rightarrow> TrainerWindow \<Rightarrow> TrainerWindow" where
  "StartTraining rnd s0 =
     (let s = (if items s0 = [] then FilterItemsByDifficulty s0 else s0) in
      if items s = [] then s
      else
        let s1 = s\<lparr>rounds_total := 0, rounds_correct := 0, training := True, paused := False,
                   sequence_pos := 0, paused_elapsed := 0\<rparr>;
            s2 = elapsed_restart (UpdateErrorLabel NoError s1);
            s3 = s2\<lparr>start_button_enabled := False, stop_button_enabled := True,
                    pause_button_enabled := True, settings_button_enabled := False\<rparr>;
            s4 = (case mode s3 of
                    kTimed \<Rightarrow> s3\<lparr>remaining_seconds := time_limit_seconds s3,
                                  countdown_active := True\<rparr>
                  | _ \<Rightarrow> s3)
        in NextItem rnd s4)"

definition StopTraining :: "TrainerWindow \<Rightarrow> TrainerWindow" where
  "StopTraining s =
     (let s1 = s\<lparr>countdown_active := False\<rparr>;
          s2 = (if rounds_total s1 > 0 \<and> mode s1 \<noteq> kZen then SaveSessionRecord s1 else s1);
          s3 = s2\<lparr>training := False, paused := False,
                  start_button_enabled := True, stop_button_enabled := False,
                  pause_button_enabled := False, settings_button_enabled := True,
                  target_label := TrainingEndedText\<rparr>
      in UpdateErrorLabel NoError s3)"

definition PauseTraining :: "TrainerWindow \<Rightarrow> TrainerWindow" where
  "PauseTraining s =
     (if \<not> training s \<or> paused s then s
      else s\<lparr>paused := True, paused_elapsed := elapsed s, countdown_active := False,
             target_label := PausedText\<rparr>)"

definition ResumeTraining :: "TrainerWindow \<Rightarrow> TrainerWindow" where
  "ResumeTraining s =
     (if \<not> training s \<or> \<not> paused s then s
      else
        let s1 = elapsed_restart (s\<lparr>paused := False\<rparr>);
            s2 = (if mode s1 = kTimed then s1\<lparr>countdown_active := True\<rparr> else s1)
        in ShowCurrentItem s2)"

definition OnTimerTick :: "TrainerWindow \<Rightarrow> TrainerWindow" where
  "OnTimerTick s =
     (if \<not> training s \<or> paused s then s
      else if mode s = kTimed then
        let s1 = s\<lparr>remaining_seconds := remaining_seconds s - 1\<rparr> in
        if remaining_seconds s1 \<le> 0 then (StopTraining s1)\<lparr>target_label := TimeUpText\<rparr>
        else s1
      else s)"

section \<open>Key events (keyPressEvent) and close requests (closeEvent)\<close>

definition IsCurrentItemAltF4 :: "TrainerWindow \<Rightarrow> bool" where
  "IsCurrentItemAltF4 s =
     (if \<not> training s \<or> current_index s < 0 \<or> current_index s \<ge> int (length (items s))
      then False
      else let item = current_item s in
        item_type item = kCombo \<and> item_key item = Key_F4 \<and>
        (item_modifiers item AND AltModifier) \<noteq> 0)"

text \<open>The completion check that closes every judged branch.\<close>

definition check_challenge :: "TrainerWindow \<Rightarrow> TrainerWindow" where
  "check_challenge s =
     (if mode s = kChallenge \<and> rounds_correct s \<ge> target_rounds s
      then (StopTraining s)\<lparr>target_label := ChallengeCompleteText\<rparr>
      else s)"

text \<open>The four branches of the \<^verbatim>\<open>switch (item.type)\<close>; \<open>item\<close> is the current item.\<close>

definition press_single_key ::
  "TrainingItem \<Rightarrow> QKeyEvent \<Rightarrow> nat \<Rightarrow> TrainerWindow \<Rightarrow> TrainerWindow" where
  "press_single_key item e rnd s =
     (let txt = toLower (ev_text e) in
      if txt = [] then s
      else
        let ch = hd txt;
            expected = (if sequence item = [] then CHR 0x00 else hd (sequence item));
            s1 = s\<lparr>rounds_total := rounds_total s + 1\<rparr>;
            s2 = (if sequence item \<noteq> [] \<and> ch = expected
                  then NextItem rnd (UpdateErrorLabel NoError
                         (s1\<lparr>rounds_correct := rounds_correct s1 + 1\<rparr>))
                  else UpdateErrorLabel (ExpectedGot expected ch) s1)
        in check_challenge s2)"

definition modifier_mask :: KeyboardModifiers where
  "modifier_mask = ControlModifier OR ShiftModifier OR AltModifier OR MetaModifier"

definition press_combo ::
  "TrainingItem \<Rightarrow> QKeyEvent \<Rightarrow> nat \<Rightarrow> TrainerWindow \<Rightarrow> TrainerWindow" where
  "press_combo item e rnd s =
     (if IsCurrentItemAltF4 s then s
      else
        let mods = ev_modifiers e AND modifier_mask;
            k = ev_key e;
            s1 = s\<lparr>rounds_total := rounds_total s + 1\<rparr>;
            s2 = (if k = item_key item \<and> mods = item_modifiers item
                  then NextItem rnd (UpdateErrorLabel NoError
                         (s1\<lparr>rounds_correct := rounds_correct s1 + 1\<rparr>))
                  else UpdateErrorLabel (PleasePress (label item)) s1)
        in check_challenge s2)"

definition press_special_key ::
  "TrainingItem \<Rightarrow> QKeyEvent \<Rightarrow> nat \<Rightarrow> TrainerWindow \<Rightarrow> TrainerWindow" where
  "press_special_key item e rnd s =
     (let k = ev_key e;
          s1 = s\<lparr>rounds_total := rounds_total s + 1\<rparr>;
          s2 = (if k = item_key item
                then NextItem rnd (UpdateErrorLabel NoError
                       (s1\<lparr>rounds_correct := rounds_correct s1 + 1\<rparr>))
                else UpdateErrorLabel (PleasePress (label item)) s1)
      in check_challenge s2)"

definition press_sequence ::
  "TrainingItem \<Rightarrow> QKeyEvent \<Rightarrow> nat \<Rightarrow> TrainerWindow \<Rightarrow> TrainerWindow" where
  "press_sequence item e rnd s =
     (let txt = toLower (ev_text e) in
      if txt = [] then s
      else
        let seq = sequence item in
        if seq = [] then s
        else
          let s1 = (if sequence_pos s < 0 \<or> sequence_pos s \<ge> int (length seq)
                    then s\<lparr>sequence_pos := 0\<rparr> else s);
              expected = seq ! nat (sequence_pos s1);
              ch = hd txt;
              s3 = (if ch = expected
                    then
                      let s2 = UpdateErrorLabel NoError
                                 (s1\<lparr>sequence_pos := sequence_pos s1 + 1\<rparr>)
                      in if sequence_pos s2 \<ge> int (length seq)
                         then NextItem rnd
                                (s2\<lparr>rounds_total := rounds_total s2 + 1,
                                    rounds_correct := rounds_correct s2 + 1\<rparr>)
                         else s2\<lparr>target_label :=
                                   SeqProgress (label item) (sequence_pos s2) (int (length seq))\<rparr>
                    else
                      (UpdateErrorLabel (ExpectedGot expected ch)
                         (s1\<lparr>rounds_total := rounds_total s1 + 1\<rparr>))
                        \<lparr>sequence_pos := 0,
                         target_label := SeqProgress (label item) 0 (int (length seq))\<rparr>)
          in check_challenge s3)"

text \<open>
  \<^verbatim>\<open>keyPressEvent\<close>. Where the source hands the event to \<^verbatim>\<open>QMainWindow::keyPressEvent\<close> the
  trainer's own state is left as it is. The source's test for Tab and Backtab has an empty
  body and falls through to the ordinary handling, so it does not appear here.
\<close>

definition keyPressEvent :: "QKeyEvent \<Rightarrow> nat \<Rightarrow> TrainerWindow \<Rightarrow> TrainerWindow" where
  "keyPressEvent e rnd s =
     (if paused s \<and> ev_key e = Key_Space then ResumeTraining s
      else if \<not> training s \<or> paused s then s
      else if items s = [] \<or> current_index s < 0 \<or> current_index s \<ge> int (length (items s))
      then s
      else
        let s1 = s\<lparr>pressed_keys := insert (ev_key e) (pressed_keys s),
                   current_modifiers := ev_modifiers e\<rparr>;
            raw_key = ev_key e
        in
          if raw_key = Key_Shift \<or> raw_key = Key_Control \<or> raw_key = Key_Alt \<or> raw_key = Key_Meta
          then s1
          else if ev_key e = Key_Escape then StopTraining s1
          else
            let item = current_item s1 in
            (case item_type item of
               kSingleKey \<Rightarrow> press_single_key item e rnd s1
             | kCombo \<Rightarrow> press_combo item e rnd s1
             | kSpecialKey \<Rightarrow> press_special_key item e rnd s1
             | kSequence \<Rightarrow> press_sequence item e rnd s1))"

text \<open>
  \<^verbatim>\<open>closeEvent\<close> returns the new state and whether the close was accepted
  (\<^verbatim>\<open>event->ignore()\<close> gives \<open>False\<close>).
\<close>

definition closeEvent :: "nat \<Rightarrow> TrainerWindow \<Rightarrow> TrainerWindow \<times> bool" where
  "closeEvent rnd s =
     (if training s then
        (if IsCurrentItemAltF4 s
         then
           let s1 = s\<lparr>rounds_total := rounds_total s + 1, rounds_correct := rounds_correct s + 1\<rparr>;
               s2 = NextItem rnd (UpdateErrorLabel NoError s1)
           in (check_challenge s2, False)
         else (UpdateErrorLabel CloseWarning s, False))
      else (s, True))"

section \<open>Events of the window\<close>

text \<open>
  What can reach the window while the training page is shown: a key press, a tick of the
  countdown timer, a close request, a click on one of the three session buttons (a disabled
  button delivers nothing), and the passing of time.
\<close>

datatype event =
    KeyPress QKeyEvent nat
  | TimerTick
  | CloseRequest nat
  | ClickStart nat
  | ClickStop
  | ClickPause
  | Elapse nat

fun step :: "event \<Rightarrow> TrainerWindow \<Rightarrow> TrainerWindow" where
  "step (KeyPress e rnd) s = keyPressEvent e rnd s"
| "step TimerTick s = OnTimerTick s"
| "step (CloseRequest rnd) s = fst (closeEvent rnd s)"
| "step (ClickStart rnd) s = (if start_button_enabled s then StartTraining rnd s else s)"
| "step ClickStop s = (if stop_button_enabled s then StopTraining s else s)"
| "step ClickPause s =
     (if pause_button_enabled s
      then (if paused s then ResumeTraining s else PauseTraining s)
      else s)"
| "step (Elapse d) s =
     s\<lparr>clock := clock s + int d, current_date_time := current_date_time s + int d\<rparr>"

fun run :: "event list \<Rightarrow> TrainerWindow \<Rightarrow> TrainerWindow" where
  "run [] s = s"
| "run (e # es) s = run es (step e s)"


text \<open>The window as the constructor leaves it, with the settings given.\<close>

definition initial_window ::
  "Difficulty \<Rightarrow> TrainingMode \<Rightarrow> int \<Rightarrow> int \<Rightarrow> TrainerWindow" where
  "initial_window d m tlimit tr =
     FilterItemsByDifficulty (InitAllTrainingItems
       \<lparr> all_items = [], items = [], current_index = -1, sequence_pos = 0,
         training = False, paused = False, rounds_total = 0, rounds_correct = 0,
         target_rounds = tr, time_limit_seconds = tlimit, remaining_seconds = 0,
         difficulty = d, mode = m,
         custom_single_keys = True, custom_special_keys = True,
         custom_combos = True, custom_sequences = True,
         elapsed_start = None, countdown_active = False, paused_elapsed = 0,
         history = [], pressed_keys = {}, current_modifiers = NoModifier,
         error_label = NoError, target_label = InitialText,
         start_button_enabled = True, stop_button_enabled = False,
         pause_button_enabled = False, settings_button_enabled = True,
         clock = 0, current_date_time = 0 \<rparr>)"

section \<open>Notions used in the statements\<close>

text \<open>
  The keys that never reach the \<^verbatim>\<open>switch\<close> over the item's type: the four pure modifier
  keys, which are swallowed, and Escape, which stops the session.
\<close>

definition modifier_or_escape :: "int \<Rightarrow> bool" where
  "modifier_or_escape k =
     (k = Key_Shift \<or> k = Key_Control \<or> k = Key_Alt \<or> k = Key_Meta \<or> k = Key_Escape)"

text \<open>
  The bookkeeping every key press of a running session does before it is judged:
  \<^verbatim>\<open>pressed_keys_.insert(event->key())\<close> and \<^verbatim>\<open>current_modifiers_ = event->modifiers()\<close>.
\<close>

definition track_key :: "QKeyEvent \<Rightarrow> TrainerWindow \<Rightarrow> TrainerWindow" where
  "track_key e s =
     s\<lparr>pressed_keys := insert (ev_key e) (pressed_keys s), current_modifiers := ev_modifiers e\<rparr>"


text \<open>
  The specification's measure of elapsed time: the time a session has spent running (active
  and not paused) along a sequence of events, counted from the passing of time itself and
  not from the program's timers.
\<close>

fun time_spent_running :: "event list \<Rightarrow> TrainerWindow \<Rightarrow> int" where
  "time_spent_running [] s = 0"
| "time_spent_running (Elapse d # es) s =
     (if training s \<and> \<not> paused s then int d else 0) + time_spent_running es (step (Elapse d) s)"
| "time_spent_running (e # es) s = time_spent_running es (step e s)"


section \<open>Invariants\<close>


text \<open>The completion text of Challenge mode is never shown while a session is active.\<close>

definition label_inv :: "TrainerWindow \<Rightarrow> bool" where
  "label_inv s = (training s \<longrightarrow> target_label s \<noteq> ChallengeCompleteText)"

text \<open>A Timed session that is counting down, and one whose time has run out.\<close>

definition timed_running :: "TrainerWindow \<Rightarrow> bool" where
  "timed_running s = (training s \<and> \<not> paused s \<and> mode s = kTimed)"


section \<open>Example inputs\<close>

text \<open>Concrete records and windows at which the theorems below are instantiated.\<close>

definition numbered_record :: "nat \<Rightarrow> SessionRecord" where
  "numbered_record n =
     \<lparr> timestamp = int n, total_rounds = 1, correct_rounds = 1, duration_ms = 1000,
       rec_difficulty = kBeginner, rec_mode = kEndless \<rparr>"

definition nothing_enabled :: TrainerWindow where
  "nothing_enabled =
     (initial_window kCustom kEndless 60 50)
       \<lparr>custom_single_keys := False, custom_special_keys := False,
        custom_combos := False, custom_sequences := False\<rparr>"

definition key_event :: "int \<Rightarrow> string \<Rightarrow> KeyboardModifiers \<Rightarrow> QKeyEvent" where
  "key_event k t m = \<lparr> ev_key = k, ev_text = t, ev_modifiers = m \<rparr>"

definition four_items :: "TrainingItem list" where
  "four_items =
     [MakeSequence ''qwer'' kAdvanced,
      MakeCombo ControlModifier Key_S ''Ctrl+S'' kIntermediate,
      MakeCombo AltModifier Key_F4 ''Alt+F4'' kAdvanced,
      MakeSingleKey CHR ''q'' kBeginner]"

definition running_window :: "TrainingMode \<Rightarrow> int \<Rightarrow> int \<Rightarrow> TrainerWindow" where
  "running_window m idx pos =
     \<lparr> all_items = four_items, items = four_items, current_index = idx, sequence_pos = pos,
       training = True, paused = False, rounds_total = 0, rounds_correct = 0,
       target_rounds = 50, time_limit_seconds = 60, remaining_seconds = 60,
       difficulty = kAdvanced, mode = m,
       custom_single_keys = True, custom_special_keys = True,
       custom_combos = True, custom_sequences = True,
       elapsed_start = Some 0, countdown_active = (m = kTimed), paused_elapsed = 0,
       history = [], pressed_keys = {}, current_modifiers = NoModifier,
       error_label = NoError, target_label = InitialText,
       start_button_enabled = False, stop_button_enabled = True,
       pause_button_enabled = True, settings_button_enabled = False,
       clock = 0, current_date_time = 0 \<rparr>"

definition idle_window :: "TrainingMode \<Rightarrow> int \<Rightarrow> int \<Rightarrow> TrainerWindow" where
  "idle_window m tlimit tr =
     \<lparr> all_items = four_items, items = four_items, current_index = -1, sequence_pos = 0,
       training = False, paused = False, rounds_total = 0, rounds_correct = 0,
       target_rounds = tr, time_limit_seconds = tlimit, remaining_seconds = 0,
       difficulty = kAdvanced, mode = m,
       custom_single_keys = True, custom_special_keys = True,
       custom_combos = True, custom_sequences = True,
       elapsed_start = None, countdown_active = False, paused_elapsed = 0,
       history = [], pressed_keys = {}, current_modifiers = NoModifier,
       error_label = NoError, target_label = InitialText,
       start_button_enabled = True, stop_button_enabled = False,
       pause_button_enabled = False, settings_button_enabled = True,
       clock = 0, current_date_time = 0 \<rparr>"


definition one_pause :: "event list" where
  "one_pause = [ClickStart 0, Elapse 5000, ClickPause, Elapse 5000, ClickPause, Elapse 5000]"

definition two_pauses :: "event list" where
  "two_pauses = one_pause @ [ClickPause, Elapse 5000, ClickPause, Elapse 5000]"



definition stop_while_paused :: "event list" where
  "stop_while_paused =
     [ClickStart 3, KeyPress (key_event Key_Q ''q'' NoModifier) 3, Elapse 5000, ClickPause,
      Elapse 5000]"

definition stop_after_two_pauses :: "event list" where
  "stop_after_two_pauses =
     [ClickStart 3, KeyPress (key_event Key_Q ''q'' NoModifier) 3, Elapse 5000, ClickPause,
      Elapse 5000, ClickPause, Elapse 5000, ClickPause, Elapse 5000, ClickPause, Elapse 5000]"

section \<open>Basic facts\<close>

lemmas key_defs =
  Key_Space_def Key_Exclam_def Key_NumberSign_def Key_Dollar_def Key_Percent_def Key_0_def
  Key_At_def Key_A_def Key_C_def Key_D_def Key_E_def Key_F_def Key_Q_def Key_R_def Key_S_def
  Key_V_def Key_W_def Key_X_def Key_Z_def Key_Escape_def Key_Tab_def
  Key_Shift_def Key_Control_def Key_Meta_def Key_Alt_def Key_CapsLock_def Key_F1_def
  Key_F2_def Key_F3_def Key_F4_def Key_F5_def Key_F6_def Key_F7_def Key_F8_def

lemmas modifier_defs =
  NoModifier_def ShiftModifier_def ControlModifier_def AltModifier_def MetaModifier_def
  KeypadModifier_def


lemma catalog_nonempty: "catalog \<noteq> []"
  by (simp add: catalog_def)

lemma trim_history_take: "trim_history h = take 100 h"
proof (induction h rule: trim_history.induct)
  case (1 h)
  show ?case
  proof (cases "int (length h) > kMaxHistoryRecords")
    case True
    then have len: "100 < length h" by (simp add: kMaxHistoryRecords_def)
    have "trim_history h = trim_history (butlast h)"
      using True by (subst trim_history.simps) simp
    also have "\<dots> = take 100 (butlast h)" using 1 True by simp
    also have "\<dots> = take 100 h" using len by (simp add: butlast_conv_take)
    finally show ?thesis .
  next
    case False
    then have "length h \<le> 100" by (simp add: kMaxHistoryRecords_def)
    moreover have "trim_history h = h" using False by (subst trim_history.simps) simp
    ultimately show ?thesis by simp
  qed
qed

lemma prepend_record_take: "prepend_record r h = take 100 (r # h)"
  by (simp add: prepend_record_def trim_history_take)

lemma take_append_take: "take n (xs @ take n ys) = take n (xs @ ys)"
  by (simp add: min_def)

lemma foldl_prepend_record:
  "foldl (\<lambda>h r. prepend_record r h) h0 rs = take 100 (rev rs @ h0)" if "length h0 \<le> 100"
  using that
proof (induction rs arbitrary: h0)
  case Nil
  then show ?case by simp
next
  case (Cons r rs)
  have "length (prepend_record r h0) \<le> 100" by (simp add: prepend_record_take)
  from Cons.IH[OF this] have
    "foldl (\<lambda>h r. prepend_record r h) (prepend_record r h0) rs
       = take 100 (rev rs @ take 100 (r # h0))"
    by (simp only: prepend_record_take)
  also have "\<dots> = take 100 (rev rs @ r # h0)" by (rule take_append_take)
  finally show ?case by simp
qed

lemma history_SaveSessionRecord:
  "history (SaveSessionRecord s) = take 100 (make_record s # history s)"
  by (simp add: SaveSessionRecord_def prepend_record_take)

lemma make_record_countdown [simp]:
  "make_record (s\<lparr>countdown_active := b\<rparr>) = make_record s"
  by (simp add: make_record_def elapsed_def split: option.split)

subsection \<open>What the helpers leave alone\<close>

lemma StopTraining_fields [simp]:
  "rounds_total (StopTraining s) = rounds_total s"
  "rounds_correct (StopTraining s) = rounds_correct s"
  "current_index (StopTraining s) = current_index s"
  "sequence_pos (StopTraining s) = sequence_pos s"
  "items (StopTraining s) = items s"
  "remaining_seconds (StopTraining s) = remaining_seconds s"
  "mode (StopTraining s) = mode s"
  "target_rounds (StopTraining s) = target_rounds s"
  "training (StopTraining s) = False"
  "paused (StopTraining s) = False"
  "error_label (StopTraining s) = NoError"
  "target_label (StopTraining s) = TrainingEndedText"
  "stop_button_enabled (StopTraining s) = False"
  "pause_button_enabled (StopTraining s) = False"
  by (simp_all add: StopTraining_def Let_def UpdateErrorLabel_def SaveSessionRecord_def)

lemma check_challenge_fields [simp]:
  "rounds_total (check_challenge s) = rounds_total s"
  "rounds_correct (check_challenge s) = rounds_correct s"
  "current_index (check_challenge s) = current_index s"
  "sequence_pos (check_challenge s) = sequence_pos s"
  "items (check_challenge s) = items s"
  "remaining_seconds (check_challenge s) = remaining_seconds s"
  "mode (check_challenge s) = mode s"
  "target_rounds (check_challenge s) = target_rounds s"
  by (simp_all add: check_challenge_def)

lemma NextItem_fields [simp]:
  "rounds_total (NextItem rnd s) = rounds_total s"
  "rounds_correct (NextItem rnd s) = rounds_correct s"
  "items (NextItem rnd s) = items s"
  "remaining_seconds (NextItem rnd s) = remaining_seconds s"
  "mode (NextItem rnd s) = mode s"
  "target_rounds (NextItem rnd s) = target_rounds s"
  "training (NextItem rnd s) = training s"
  "paused (NextItem rnd s) = paused s"
  "history (NextItem rnd s) = history s"
  "stop_button_enabled (NextItem rnd s) = stop_button_enabled s"
  "pause_button_enabled (NextItem rnd s) = pause_button_enabled s"
  by (simp_all add: NextItem_def ShowCurrentItem_def UpdateErrorLabel_def Let_def)

lemma NextItem_picks:
  "items s \<noteq> [] \<Longrightarrow> current_index (NextItem rnd s) = bounded rnd (length (items s))"
  "items s \<noteq> [] \<Longrightarrow> sequence_pos (NextItem rnd s) = 0"
  "items s \<noteq> [] \<Longrightarrow> error_label (NextItem rnd s) = NoError"
  by (simp_all add: NextItem_def ShowCurrentItem_def UpdateErrorLabel_def Let_def)

lemma bounded_in_range: "0 < n \<Longrightarrow> 0 \<le> bounded rnd n \<and> bounded rnd n < int n"
  by (simp add: bounded_def)

lemma track_key_fields [simp]:
  "rounds_total (track_key e s) = rounds_total s"
  "rounds_correct (track_key e s) = rounds_correct s"
  "current_index (track_key e s) = current_index s"
  "sequence_pos (track_key e s) = sequence_pos s"
  "items (track_key e s) = items s"
  "mode (track_key e s) = mode s"
  "target_rounds (track_key e s) = target_rounds s"
  "training (track_key e s) = training s"
  "paused (track_key e s) = paused s"
  "error_label (track_key e s) = error_label s"
  "current_item (track_key e s) = current_item s"
  "IsCurrentItemAltF4 (track_key e s) = IsCurrentItemAltF4 s"
  by (simp_all add: track_key_def current_item_def IsCurrentItemAltF4_def)

lemma keyPressEvent_dispatch:
  assumes "training s" "\<not> paused s" "0 \<le> current_index s"
    "current_index s < int (length (items s))" "\<not> modifier_or_escape (ev_key e)"
  shows "keyPressEvent e rnd s =
     (case item_type (current_item s) of
        kSingleKey \<Rightarrow> press_single_key (current_item s) e rnd (track_key e s)
      | kCombo \<Rightarrow> press_combo (current_item s) e rnd (track_key e s)
      | kSpecialKey \<Rightarrow> press_special_key (current_item s) e rnd (track_key e s)
      | kSequence \<Rightarrow> press_sequence (current_item s) e rnd (track_key e s))"
proof -
  have ne: "items s \<noteq> []" using assms(3,4) by auto
  show ?thesis
    using assms ne
    by (simp add: keyPressEvent_def Let_def modifier_or_escape_def track_key_def
        current_item_def split: TrainingType.split)
qed


section \<open>The history\<close>

text \<open>
  C9: saving a session record puts it at the front of the history and keeps the 100 most
  recent entries, so the history never holds more than 100 records afterwards; saving 101
  records into an empty history leaves exactly the last 100 of them, most recent first (the
  first one saved is dropped).
\<close>

theorem C9_history_prepend_capped:
  "history (SaveSessionRecord s) = take 100 (make_record s # history s)
   \<and> length (history (SaveSessionRecord s)) \<le> 100
   \<and> (length rs = 101 \<longrightarrow>
        foldl (\<lambda>h r. prepend_record r h) [] rs = rev (tl rs)
        \<and> length (foldl (\<lambda>h r. prepend_record r h) [] rs) = 100)"
proof -
  have a: "history (SaveSessionRecord s) = take 100 (make_record s # history s)"
    by (rule history_SaveSessionRecord)
  have b: "length (history (SaveSessionRecord s)) \<le> 100"
    by (simp add: a)
  have c: "foldl (\<lambda>h r. prepend_record r h) [] rs = rev (tl rs)" if len: "length rs = 101"
  proof -
    have "foldl (\<lambda>h r. prepend_record r h) [] rs = take 100 (rev rs)"
      using foldl_prepend_record[of "[]" rs] by simp
    also have "\<dots> = rev (drop 1 rs)" using len by (simp add: take_rev)
    finally show ?thesis by (simp add: drop_Suc)
  qed
  have d: "length (foldl (\<lambda>h r. prepend_record r h) [] rs) = 100" if len: "length rs = 101"
    using c[OF len] len by simp
  from a b c d show ?thesis by blast
qed

theorem C9_witness:
  "length (map numbered_record [0..<101]) = 101
   \<and> foldl (\<lambda>h r. prepend_record r h) [] (map numbered_record [0..<101])
       = rev (map numbered_record [1..<101])
   \<and> length (foldl (\<lambda>h r. prepend_record r h) [] (map numbered_record [0..<101])) = 100"
proof -
  have len: "length (map numbered_record [0..<101]) = 101" by simp
  have tl: "tl (map numbered_record [0..<101]) = map numbered_record [1..<101]"
    by (simp add: map_tl[symmetric] upt_conv_Cons del: upt.simps)
  from C9_history_prepend_capped[of _ "map numbered_record [0..<101]"] len tl
  show ?thesis by simp
qed

text \<open>
  Stopping a session saves a record exactly when at least one round was counted and the
  mode is not Zen; the record goes to the front of the history, which is otherwise
  unchanged up to the cap of 100. In Zen mode, or with no round counted, the history is
  left as it is. The record carries the round total, the correct count, the difficulty
  and the mode of the session.
\<close>

lemma StopTraining_history:
  "history (StopTraining s) =
     (if rounds_total s > 0 \<and> mode s \<noteq> kZen
      then take 100 (make_record s # history s) else history s)
   \<and> total_rounds (make_record s) = rounds_total s
   \<and> correct_rounds (make_record s) = rounds_correct s
   \<and> rec_difficulty (make_record s) = difficulty s
   \<and> rec_mode (make_record s) = mode s
   \<and> \<not> training (StopTraining s) \<and> \<not> paused (StopTraining s)"
proof -
  have "history (StopTraining s) =
     (if rounds_total s > 0 \<and> mode s \<noteq> kZen
      then take 100 (make_record s # history s) else history s)"
    by (simp add: StopTraining_def Let_def UpdateErrorLabel_def history_SaveSessionRecord)
  moreover have "\<not> training (StopTraining s) \<and> \<not> paused (StopTraining s)"
    by (simp add: StopTraining_def Let_def UpdateErrorLabel_def)
  ultimately show ?thesis by (simp add: make_record_def)
qed

text \<open>
  C8: the record saved when a session stops, and the duration it carries. A session that
  counts one round, runs for 5 s, is paused for 5 s and is then stopped with the Stop
  button has spent 5 s running, and the statistics show 5 s; the record saved for it
  carries a duration of 15 s. A session that counts one round and runs three times 5 s
  with two pauses of 5 s in between has spent 15 s running; the record saved when it is
  stopped carries a duration of 10 s. \<^verbatim>\<open>SaveSessionRecord\<close> adds \<^verbatim>\<open>elapsed_->elapsed()\<close> and
  \<^verbatim>\<open>paused_elapsed_\<close> whether or not the session is paused, where \<^verbatim>\<open>UpdateStatsLabel\<close>
  takes \<^verbatim>\<open>paused_elapsed_\<close> alone for a paused session.
\<close>

theorem C8_saved_duration_wrong:
  "time_spent_running stop_while_paused (idle_window kEndless 60 50) = 5000
   \<and> stats_elapsed_ms (run stop_while_paused (idle_window kEndless 60 50)) = 5000
   \<and> stop_button_enabled (run stop_while_paused (idle_window kEndless 60 50))
   \<and> map total_rounds (history (step ClickStop
        (run stop_while_paused (idle_window kEndless 60 50)))) = [1]
   \<and> map duration_ms (history (step ClickStop
        (run stop_while_paused (idle_window kEndless 60 50)))) = [15000]
   \<and> time_spent_running stop_after_two_pauses (idle_window kEndless 60 50) = 15000
   \<and> stop_button_enabled (run stop_after_two_pauses (idle_window kEndless 60 50))
   \<and> map duration_ms (history (step ClickStop
        (run stop_after_two_pauses (idle_window kEndless 60 50)))) = [10000]"
  by code_simp

section \<open>The difficulty filter\<close>

text \<open>
  C5: for every difficulty and every setting of the four custom toggles, filtering a
  non-empty catalog gives a non-empty working set: the selected items when there are any,
  and the whole catalog otherwise. In particular the working set built from the program's
  own catalog is never empty.
\<close>

theorem C5_filter_never_empty:
  "(all_items s \<noteq> [] \<longrightarrow>
      items (FilterItemsByDifficulty s) \<noteq> []
      \<and> (filter (include_item s) (all_items s) = [] \<longrightarrow>
            items (FilterItemsByDifficulty s) = all_items s)
      \<and> (filter (include_item s) (all_items s) \<noteq> [] \<longrightarrow>
            items (FilterItemsByDifficulty s) = filter (include_item s) (all_items s)))
   \<and> items (FilterItemsByDifficulty (InitAllTrainingItems s)) \<noteq> []"
  by (simp add: FilterItemsByDifficulty_def InitAllTrainingItems_def Let_def catalog_nonempty)

lemma include_item_nothing_enabled: "include_item nothing_enabled item = False"
  by (simp add: nothing_enabled_def include_item_def initial_window_def
      FilterItemsByDifficulty_def InitAllTrainingItems_def Let_def split: TrainingType.split)

theorem C5_witness:
  "all_items nothing_enabled \<noteq> []
   \<and> filter (include_item nothing_enabled) (all_items nothing_enabled) = []
   \<and> items (FilterItemsByDifficulty nothing_enabled) = catalog"
proof -
  have a: "all_items nothing_enabled = catalog"
    by (simp add: nothing_enabled_def initial_window_def FilterItemsByDifficulty_def
        InitAllTrainingItems_def Let_def)
  have b: "filter (include_item nothing_enabled) (all_items nothing_enabled) = []"
    by (simp add: include_item_nothing_enabled)
  from C5_filter_never_empty[of nothing_enabled] a b catalog_nonempty show ?thesis by simp
qed

section \<open>Judging key presses\<close>

lemma press_sequence_match_partial:
  assumes "items s \<noteq> []" "toLower (ev_text e) \<noteq> []"
    "0 \<le> sequence_pos s" "sequence_pos s < int (length (sequence item))"
    "hd (toLower (ev_text e)) = sequence item ! nat (sequence_pos s)"
    "sequence_pos s + 1 < int (length (sequence item))"
  shows "sequence_pos (press_sequence item e rnd s) = sequence_pos s + 1"
    "rounds_total (press_sequence item e rnd s) = rounds_total s"
    "rounds_correct (press_sequence item e rnd s) = rounds_correct s"
    "current_index (press_sequence item e rnd s) = current_index s"
  using assms by (auto simp add: press_sequence_def Let_def UpdateErrorLabel_def)

lemma press_sequence_match_complete:
  assumes "items s \<noteq> []" "toLower (ev_text e) \<noteq> []"
    "0 \<le> sequence_pos s" "sequence_pos s < int (length (sequence item))"
    "hd (toLower (ev_text e)) = sequence item ! nat (sequence_pos s)"
    "sequence_pos s + 1 = int (length (sequence item))"
  shows "sequence_pos (press_sequence item e rnd s) = 0"
    "rounds_total (press_sequence item e rnd s) = rounds_total s + 1"
    "rounds_correct (press_sequence item e rnd s) = rounds_correct s + 1"
    "current_index (press_sequence item e rnd s) = bounded rnd (length (items s))"
  using assms by (auto simp add: press_sequence_def Let_def UpdateErrorLabel_def NextItem_picks)

lemma press_sequence_mismatch:
  assumes "items s \<noteq> []" "toLower (ev_text e) \<noteq> []"
    "0 \<le> sequence_pos s" "sequence_pos s < int (length (sequence item))"
    "hd (toLower (ev_text e)) \<noteq> sequence item ! nat (sequence_pos s)"
  shows "sequence_pos (press_sequence item e rnd s) = 0"
    "rounds_total (press_sequence item e rnd s) = rounds_total s + 1"
    "rounds_correct (press_sequence item e rnd s) = rounds_correct s"
    "current_index (press_sequence item e rnd s) = current_index s"
  using assms by (auto simp add: press_sequence_def Let_def UpdateErrorLabel_def)

text \<open>
  C2: a key press judged against a Sequence item, in a running session that is not paused,
  with a non-empty (lowercased) text and the progress inside the sequence. If the first
  character equals the character at the current progress, the progress grows by one; when
  it thereby reaches the length of the sequence, exactly one round is counted as correct
  (total and correct both grow by one), the progress is reset to 0 and a new item is
  picked. Otherwise exactly one failed attempt is counted (the total grows by one, the
  correct count does not), the progress is reset to 0 and the item stays current.
\<close>

theorem C2_sequence_item:
  assumes "training s" "\<not> paused s" "0 \<le> current_index s"
    "current_index s < int (length (items s))"
    "item_type (current_item s) = kSequence"
    "\<not> modifier_or_escape (ev_key e)"
    "toLower (ev_text e) \<noteq> []"
    "0 \<le> sequence_pos s" "sequence_pos s < int (length (sequence (current_item s)))"
  shows
    "(if hd (toLower (ev_text e)) = sequence (current_item s) ! nat (sequence_pos s)
      then
        (if sequence_pos s + 1 = int (length (sequence (current_item s)))
         then rounds_total (keyPressEvent e rnd s) = rounds_total s + 1
            \<and> rounds_correct (keyPressEvent e rnd s) = rounds_correct s + 1
            \<and> sequence_pos (keyPressEvent e rnd s) = 0
            \<and> current_index (keyPressEvent e rnd s) = bounded rnd (length (items s))
         else rounds_total (keyPressEvent e rnd s) = rounds_total s
            \<and> rounds_correct (keyPressEvent e rnd s) = rounds_correct s
            \<and> sequence_pos (keyPressEvent e rnd s) = sequence_pos s + 1
            \<and> current_index (keyPressEvent e rnd s) = current_index s)
      else rounds_total (keyPressEvent e rnd s) = rounds_total s + 1
         \<and> rounds_correct (keyPressEvent e rnd s) = rounds_correct s
         \<and> sequence_pos (keyPressEvent e rnd s) = 0
         \<and> current_index (keyPressEvent e rnd s) = current_index s)
     \<and> items (keyPressEvent e rnd s) = items s"
proof -
  let ?t = "track_key e s"
  let ?item = "current_item s"
  have kp: "keyPressEvent e rnd s = press_sequence ?item e rnd ?t"
    using assms by (simp add: keyPressEvent_dispatch)
  have ne: "items ?t \<noteq> []" using assms(3,4) by auto
  have pos: "0 \<le> sequence_pos ?t" "sequence_pos ?t < int (length (sequence ?item))"
    using assms by simp_all
  have its: "items (press_sequence ?item e rnd ?t) = items s"
    by (simp add: press_sequence_def Let_def UpdateErrorLabel_def)
  show ?thesis
  proof (cases "hd (toLower (ev_text e)) = sequence ?item ! nat (sequence_pos s)")
    case False
    then have "hd (toLower (ev_text e)) \<noteq> sequence ?item ! nat (sequence_pos ?t)" by simp
    from press_sequence_mismatch[OF ne assms(7) pos this, of rnd] False its
    show ?thesis by (simp add: kp)
  next
    case True
    then have m: "hd (toLower (ev_text e)) = sequence ?item ! nat (sequence_pos ?t)" by simp
    show ?thesis
    proof (cases "sequence_pos s + 1 = int (length (sequence ?item))")
      case True
      then have "sequence_pos ?t + 1 = int (length (sequence ?item))" by simp
      from press_sequence_match_complete[OF ne assms(7) pos m this, of rnd] True m its
      show ?thesis by (simp add: kp)
    next
      case False
      then have "sequence_pos ?t + 1 < int (length (sequence ?item))" using pos by simp
      from press_sequence_match_partial[OF ne assms(7) pos m this, of rnd] False m its
      show ?thesis by (simp add: kp)
    qed
  qed
qed

lemma running_window_fields [simp]:
  "training (running_window m idx pos)"
  "\<not> paused (running_window m idx pos)"
  "current_index (running_window m idx pos) = idx"
  "sequence_pos (running_window m idx pos) = pos"
  "items (running_window m idx pos) = four_items"
  "rounds_total (running_window m idx pos) = 0"
  "rounds_correct (running_window m idx pos) = 0"
  "mode (running_window m idx pos) = m"
  by (simp_all add: running_window_def)

lemma four_items_nth:
  "current_item (running_window m 0 pos) = MakeSequence ''qwer'' kAdvanced"
  "current_item (running_window m 1 pos) = MakeCombo ControlModifier Key_S ''Ctrl+S'' kIntermediate"
  "current_item (running_window m 2 pos) = MakeCombo AltModifier Key_F4 ''Alt+F4'' kAdvanced"
  "current_item (running_window m 3 pos) = MakeSingleKey CHR ''q'' kBeginner"
  "length four_items = 4"
  by (simp_all add: current_item_def four_items_def)

lemma sequence_qwer:
  "sequence (MakeSequence ''qwer'' d) = ''qwer''"
  "item_type (MakeSequence ''qwer'' d) = kSequence"
  by (simp_all add: MakeSequence_def toLower_def toLower_char_def)

theorem C2_witness:
  "rounds_total (keyPressEvent (key_event Key_R ''r'' NoModifier) 5 (running_window kEndless 0 3)) = 1
   \<and> rounds_correct (keyPressEvent (key_event Key_R ''r'' NoModifier) 5 (running_window kEndless 0 3)) = 1
   \<and> sequence_pos (keyPressEvent (key_event Key_R ''r'' NoModifier) 5 (running_window kEndless 0 3)) = 0
   \<and> current_index (keyPressEvent (key_event Key_R ''r'' NoModifier) 5 (running_window kEndless 0 3)) = 1
   \<and> rounds_total (keyPressEvent (key_event Key_X ''x'' NoModifier) 5 (running_window kEndless 0 2)) = 1
   \<and> rounds_correct (keyPressEvent (key_event Key_X ''x'' NoModifier) 5 (running_window kEndless 0 2)) = 0
   \<and> sequence_pos (keyPressEvent (key_event Key_X ''x'' NoModifier) 5 (running_window kEndless 0 2)) = 0
   \<and> current_index (keyPressEvent (key_event Key_X ''x'' NoModifier) 5 (running_window kEndless 0 2)) = 0"
proof -
  let ?r = "key_event Key_R ''r'' NoModifier"
  let ?x = "key_event Key_X ''x'' NoModifier"
  have keys: "\<not> modifier_or_escape (ev_key ?r)" "\<not> modifier_or_escape (ev_key ?x)"
    by (simp_all add: key_event_def modifier_or_escape_def key_defs)
  have texts: "toLower (ev_text ?r) = ''r''" "toLower (ev_text ?x) = ''x''"
    by (simp_all add: key_event_def toLower_def toLower_char_def)
  have a: "rounds_total (keyPressEvent ?r 5 (running_window kEndless 0 3)) = 1
     \<and> rounds_correct (keyPressEvent ?r 5 (running_window kEndless 0 3)) = 1
     \<and> sequence_pos (keyPressEvent ?r 5 (running_window kEndless 0 3)) = 0
     \<and> current_index (keyPressEvent ?r 5 (running_window kEndless 0 3)) = 1"
    using C2_sequence_item[of "running_window kEndless 0 3" ?r 5] keys texts
    by (simp add: four_items_nth sequence_qwer bounded_def)
  have b: "rounds_total (keyPressEvent ?x 5 (running_window kEndless 0 2)) = 1
     \<and> rounds_correct (keyPressEvent ?x 5 (running_window kEndless 0 2)) = 0
     \<and> sequence_pos (keyPressEvent ?x 5 (running_window kEndless 0 2)) = 0
     \<and> current_index (keyPressEvent ?x 5 (running_window kEndless 0 2)) = 0"
    using C2_sequence_item[of "running_window kEndless 0 2" ?x 5] keys texts
    by (simp add: four_items_nth sequence_qwer bounded_def)
  from a b show ?thesis by simp
qed

lemma press_combo_judged:
  assumes "items s \<noteq> []" "\<not> IsCurrentItemAltF4 s"
  shows "rounds_total (press_combo item e rnd s) = rounds_total s + 1"
    "rounds_correct (press_combo item e rnd s) =
       (if ev_key e = item_key item \<and> (ev_modifiers e AND modifier_mask) = item_modifiers item
        then rounds_correct s + 1 else rounds_correct s)"
    "current_index (press_combo item e rnd s) =
       (if ev_key e = item_key item \<and> (ev_modifiers e AND modifier_mask) = item_modifiers item
        then bounded rnd (length (items s)) else current_index s)"
    "items (press_combo item e rnd s) = items s"
  using assms by (auto simp add: press_combo_def Let_def UpdateErrorLabel_def NextItem_picks)

text \<open>
  C3: a key press judged against a Combo item other than the close-intent combo, in a
  running session that is not paused. It always counts one round. It is a match exactly
  when the key code equals the item's key and the event's modifiers, masked to Control,
  Shift, Alt and Meta, equal the item's modifiers; a match counts as correct and picks a
  new item, anything else leaves the correct count and the current item as they are.
\<close>

theorem C3_combo_item:
  assumes "training s" "\<not> paused s" "0 \<le> current_index s"
    "current_index s < int (length (items s))"
    "item_type (current_item s) = kCombo"
    "\<not> IsCurrentItemAltF4 s"
    "\<not> modifier_or_escape (ev_key e)"
  shows
    "rounds_total (keyPressEvent e rnd s) = rounds_total s + 1
     \<and> items (keyPressEvent e rnd s) = items s
     \<and> (if ev_key e = item_key (current_item s)
            \<and> (ev_modifiers e AND modifier_mask) = item_modifiers (current_item s)
         then rounds_correct (keyPressEvent e rnd s) = rounds_correct s + 1
            \<and> current_index (keyPressEvent e rnd s) = bounded rnd (length (items s))
         else rounds_correct (keyPressEvent e rnd s) = rounds_correct s
            \<and> current_index (keyPressEvent e rnd s) = current_index s)"
proof -
  let ?t = "track_key e s"
  have kp: "keyPressEvent e rnd s = press_combo (current_item s) e rnd ?t"
    using assms by (simp add: keyPressEvent_dispatch)
  have ne: "items ?t \<noteq> []" using assms(3,4) by auto
  have na: "\<not> IsCurrentItemAltF4 ?t" using assms(6) by simp
  from press_combo_judged[OF ne na, of "current_item s" e rnd] show ?thesis
    by (simp add: kp)
qed

lemma ResumeTraining_fields [simp]:
  "rounds_total (ResumeTraining s) = rounds_total s"
  "rounds_correct (ResumeTraining s) = rounds_correct s"
  "current_index (ResumeTraining s) = current_index s"
  "sequence_pos (ResumeTraining s) = sequence_pos s"
  "items (ResumeTraining s) = items s"
  "remaining_seconds (ResumeTraining s) = remaining_seconds s"
  "mode (ResumeTraining s) = mode s"
  "target_rounds (ResumeTraining s) = target_rounds s"
  "training (ResumeTraining s) = training s"
  "history (ResumeTraining s) = history s"
  "stop_button_enabled (ResumeTraining s) = stop_button_enabled s"
  "pause_button_enabled (ResumeTraining s) = pause_button_enabled s"
  by (simp_all add: ResumeTraining_def ShowCurrentItem_def elapsed_restart_def Let_def)

lemma keyPressEvent_AltF4:
  assumes "IsCurrentItemAltF4 s"
  shows "rounds_total (keyPressEvent e rnd s) = rounds_total s"
    "rounds_correct (keyPressEvent e rnd s) = rounds_correct s"
    "current_index (keyPressEvent e rnd s) = current_index s"
    "sequence_pos (keyPressEvent e rnd s) = sequence_pos s"
    "items (keyPressEvent e rnd s) = items s"
proof -
  have c: "item_type (current_item s) = kCombo"
    using assms by (simp add: IsCurrentItemAltF4_def Let_def split: if_splits)
  have a: "IsCurrentItemAltF4 (track_key e s)" using assms by simp
  have p: "press_combo (current_item s) e rnd (track_key e s) = track_key e s"
    using a by (simp add: press_combo_def)
  show "rounds_total (keyPressEvent e rnd s) = rounds_total s"
    "rounds_correct (keyPressEvent e rnd s) = rounds_correct s"
    "current_index (keyPressEvent e rnd s) = current_index s"
    "sequence_pos (keyPressEvent e rnd s) = sequence_pos s"
    "items (keyPressEvent e rnd s) = items s"
    using c p unfolding keyPressEvent_def Let_def track_key_def[symmetric]
    by simp_all
qed

lemma keyPressEvent_AltF4_swallowed:
  assumes "IsCurrentItemAltF4 s" "\<not> paused s" "ev_key e \<noteq> Key_Escape"
  shows "keyPressEvent e rnd s = track_key e s"
proof -
  have c: "item_type (current_item s) = kCombo" and t: "training s"
    and i: "0 \<le> current_index s" "current_index s < int (length (items s))"
    using assms by (simp_all add: IsCurrentItemAltF4_def Let_def split: if_splits)
  have ne: "items s \<noteq> []" using i by auto
  have a: "IsCurrentItemAltF4 (track_key e s)" using assms by simp
  have p: "press_combo (current_item s) e rnd (track_key e s) = track_key e s"
    using a by (simp add: press_combo_def)
  show ?thesis
    using c p t i ne assms(2,3) unfolding keyPressEvent_def Let_def track_key_def[symmetric]
    by simp
qed

lemma closeEvent_AltF4:
  assumes "IsCurrentItemAltF4 s"
  shows "snd (closeEvent rnd s) = False"
    "rounds_total (fst (closeEvent rnd s)) = rounds_total s + 1"
    "rounds_correct (fst (closeEvent rnd s)) = rounds_correct s + 1"
    "current_index (fst (closeEvent rnd s)) = bounded rnd (length (items s))"
    "sequence_pos (fst (closeEvent rnd s)) = 0"
    "items (fst (closeEvent rnd s)) = items s"
proof -
  have t: "training s"
    and i: "0 \<le> current_index s" "current_index s < int (length (items s))"
    using assms by (simp_all add: IsCurrentItemAltF4_def Let_def split: if_splits)
  have ne: "items s \<noteq> []" using i by auto
  show "snd (closeEvent rnd s) = False"
    "rounds_total (fst (closeEvent rnd s)) = rounds_total s + 1"
    "rounds_correct (fst (closeEvent rnd s)) = rounds_correct s + 1"
    "current_index (fst (closeEvent rnd s)) = bounded rnd (length (items s))"
    "sequence_pos (fst (closeEvent rnd s)) = 0"
    "items (fst (closeEvent rnd s)) = items s"
    using assms t ne
    by (simp_all add: closeEvent_def Let_def UpdateErrorLabel_def NextItem_picks)
qed

text \<open>
  C4: while the close-intent combo (Alt+F4) is the current item of an active session, no
  key press changes the round counters, the current item or the sequence progress; unless
  the session is paused or the key is Escape, the key press only updates the pressed-key
  bookkeeping. A close request in that situation is not accepted and counts as a correct
  round (total and correct both grow by one, a new item is picked). Any other close request
  during an active session is not accepted either and only sets the warning.
\<close>

theorem C4_close_intent_combo:
  "(IsCurrentItemAltF4 s \<longrightarrow>
      rounds_total (keyPressEvent e rnd s) = rounds_total s
      \<and> rounds_correct (keyPressEvent e rnd s) = rounds_correct s
      \<and> current_index (keyPressEvent e rnd s) = current_index s
      \<and> sequence_pos (keyPressEvent e rnd s) = sequence_pos s
      \<and> (\<not> paused s \<and> ev_key e \<noteq> Key_Escape \<longrightarrow> keyPressEvent e rnd s = track_key e s))
   \<and> (IsCurrentItemAltF4 s \<longrightarrow>
      snd (closeEvent rnd s) = False
      \<and> rounds_total (fst (closeEvent rnd s)) = rounds_total s + 1
      \<and> rounds_correct (fst (closeEvent rnd s)) = rounds_correct s + 1
      \<and> current_index (fst (closeEvent rnd s)) = bounded rnd (length (items s))
      \<and> sequence_pos (fst (closeEvent rnd s)) = 0)
   \<and> (training s \<and> \<not> IsCurrentItemAltF4 s \<longrightarrow>
      closeEvent rnd s = (s\<lparr>error_label := CloseWarning\<rparr>, False))"
proof -
  have "training s \<and> \<not> IsCurrentItemAltF4 s \<longrightarrow>
      closeEvent rnd s = (s\<lparr>error_label := CloseWarning\<rparr>, False)"
    by (simp add: closeEvent_def UpdateErrorLabel_def)
  with keyPressEvent_AltF4[of s e rnd] keyPressEvent_AltF4_swallowed[of s e rnd]
    closeEvent_AltF4[of s rnd]
  show ?thesis by blast
qed

text \<open>
  C10: a key press with empty text, in a running session that is not paused and whose
  current item is a SingleKey or a Sequence item, leaves the round counters, the sequence
  progress, the current item and the working set unchanged and produces no error message.
  Unless the key is Escape (which stops the session) the key press only updates the
  pressed-key bookkeeping.
\<close>

theorem C10_empty_text_ignored:
  assumes "training s" "\<not> paused s" "0 \<le> current_index s"
    "current_index s < int (length (items s))"
    "item_type (current_item s) = kSingleKey \<or> item_type (current_item s) = kSequence"
    "ev_text e = []"
  shows
    "rounds_total (keyPressEvent e rnd s) = rounds_total s
     \<and> rounds_correct (keyPressEvent e rnd s) = rounds_correct s
     \<and> sequence_pos (keyPressEvent e rnd s) = sequence_pos s
     \<and> current_index (keyPressEvent e rnd s) = current_index s
     \<and> items (keyPressEvent e rnd s) = items s
     \<and> (error_label (keyPressEvent e rnd s) = error_label s
          \<or> error_label (keyPressEvent e rnd s) = NoError)
     \<and> (if ev_key e = Key_Escape then keyPressEvent e rnd s = StopTraining (track_key e s)
         else keyPressEvent e rnd s = track_key e s)"
proof -
  have ne: "items s \<noteq> []" using assms(3,4) by auto
  have low: "toLower (ev_text e) = []" using assms(6) by (simp add: toLower_def)
  have p1: "press_single_key (current_item s) e rnd (track_key e s) = track_key e s"
    using low by (simp add: press_single_key_def)
  have p2: "press_sequence (current_item s) e rnd (track_key e s) = track_key e s"
    using low by (simp add: press_sequence_def)
  have kp: "keyPressEvent e rnd s =
      (if ev_key e = Key_Escape then StopTraining (track_key e s) else track_key e s)"
    using assms(1-5) ne p1 p2 unfolding keyPressEvent_def Let_def track_key_def[symmetric]
    by (auto simp: Key_Shift_def Key_Control_def Key_Alt_def Key_Meta_def Key_Escape_def)
  show ?thesis by (simp add: kp)
qed

lemma mask_examples:
  "(ControlModifier AND modifier_mask) = ControlModifier"
  "((ControlModifier OR ShiftModifier) AND modifier_mask) \<noteq> ControlModifier"
  "((ControlModifier OR KeypadModifier) AND modifier_mask) = ControlModifier"
  "AltModifier \<noteq> 0"
  by (simp_all add: modifier_defs modifier_mask_def)

lemma combo_fields:
  "item_type (MakeCombo m k l d) = kCombo"
  "item_key (MakeCombo m k l d) = k"
  "item_modifiers (MakeCombo m k l d) = m"
  by (simp_all add: MakeCombo_def)

lemma example_AltF4:
  "\<not> IsCurrentItemAltF4 (running_window m 0 pos)"
  "\<not> IsCurrentItemAltF4 (running_window m 1 pos)"
  "IsCurrentItemAltF4 (running_window m 2 pos)"
  by (simp_all add: IsCurrentItemAltF4_def four_items_nth combo_fields sequence_qwer
      mask_examples Key_S_def Key_F4_def)

theorem C3_witness:
  "rounds_correct (keyPressEvent (key_event Key_S ''s'' ControlModifier) 4
       (running_window kEndless 1 0)) = 1
   \<and> rounds_correct (keyPressEvent (key_event Key_S ''S'' (ControlModifier OR ShiftModifier)) 4
       (running_window kEndless 1 0)) = 0
   \<and> current_index (keyPressEvent (key_event Key_S ''S'' (ControlModifier OR ShiftModifier)) 4
       (running_window kEndless 1 0)) = 1
   \<and> rounds_total (keyPressEvent (key_event Key_S ''S'' (ControlModifier OR ShiftModifier)) 4
       (running_window kEndless 1 0)) = 1
   \<and> rounds_correct (keyPressEvent (key_event Key_S ''s'' (ControlModifier OR KeypadModifier)) 4
       (running_window kEndless 1 0)) = 1"
proof -
  let ?w = "running_window kEndless 1 0"
  have k: "\<not> modifier_or_escape Key_S"
    by (simp add: modifier_or_escape_def key_defs)
  have a: "rounds_correct (keyPressEvent (key_event Key_S ''s'' ControlModifier) 4 ?w) = 1"
    using C3_combo_item[of ?w "key_event Key_S ''s'' ControlModifier" 4] k
    by (simp add: four_items_nth combo_fields example_AltF4 mask_examples key_event_def)
  have b: "rounds_correct
        (keyPressEvent (key_event Key_S ''S'' (ControlModifier OR ShiftModifier)) 4 ?w) = 0
     \<and> current_index
        (keyPressEvent (key_event Key_S ''S'' (ControlModifier OR ShiftModifier)) 4 ?w) = 1
     \<and> rounds_total
        (keyPressEvent (key_event Key_S ''S'' (ControlModifier OR ShiftModifier)) 4 ?w) = 1"
    using C3_combo_item[of ?w "key_event Key_S ''S'' (ControlModifier OR ShiftModifier)" 4] k
    by (simp add: four_items_nth combo_fields example_AltF4 mask_examples key_event_def)
  have c: "rounds_correct
        (keyPressEvent (key_event Key_S ''s'' (ControlModifier OR KeypadModifier)) 4 ?w) = 1"
    using C3_combo_item[of ?w "key_event Key_S ''s'' (ControlModifier OR KeypadModifier)" 4] k
    by (simp add: four_items_nth combo_fields example_AltF4 mask_examples key_event_def)
  from a b c show ?thesis by simp
qed

theorem C4_witness:
  "IsCurrentItemAltF4 (running_window kEndless 2 0)
   \<and> rounds_total (keyPressEvent (key_event Key_F4 [] AltModifier) 4
        (running_window kEndless 2 0)) = 0
   \<and> keyPressEvent (key_event Key_F4 [] AltModifier) 4 (running_window kEndless 2 0)
        = track_key (key_event Key_F4 [] AltModifier) (running_window kEndless 2 0)
   \<and> snd (closeEvent 4 (running_window kEndless 2 0)) = False
   \<and> rounds_total (fst (closeEvent 4 (running_window kEndless 2 0))) = 1
   \<and> rounds_correct (fst (closeEvent 4 (running_window kEndless 2 0))) = 1
   \<and> current_index (fst (closeEvent 4 (running_window kEndless 2 0))) = 0
   \<and> training (running_window kEndless 1 0) \<and> \<not> IsCurrentItemAltF4 (running_window kEndless 1 0)
   \<and> closeEvent 4 (running_window kEndless 1 0)
        = ((running_window kEndless 1 0)\<lparr>error_label := CloseWarning\<rparr>, False)"
proof -
  have e: "ev_key (key_event Key_F4 [] AltModifier) \<noteq> Key_Escape"
    by (simp add: key_event_def key_defs)
  from C4_close_intent_combo[of "running_window kEndless 2 0" "key_event Key_F4 [] AltModifier" 4]
    C4_close_intent_combo[of "running_window kEndless 1 0" "key_event Key_F4 [] AltModifier" 4]
    e
  show ?thesis
    by (simp add: example_AltF4 four_items_nth bounded_def)
qed

theorem C10_witness:
  "training (running_window kEndless 0 2) \<and> \<not> paused (running_window kEndless 0 2)
   \<and> item_type (current_item (running_window kEndless 0 2)) = kSequence
   \<and> ev_text (key_event Key_CapsLock [] NoModifier) = []
   \<and> keyPressEvent (key_event Key_CapsLock [] NoModifier) 4 (running_window kEndless 0 2)
        = track_key (key_event Key_CapsLock [] NoModifier) (running_window kEndless 0 2)
   \<and> sequence_pos (keyPressEvent (key_event Key_CapsLock [] NoModifier) 4
        (running_window kEndless 0 2)) = 2
   \<and> rounds_total (keyPressEvent (key_event Key_CapsLock [] NoModifier) 4
        (running_window kEndless 0 2)) = 0"
proof -
  have e: "ev_key (key_event Key_CapsLock [] NoModifier) \<noteq> Key_Escape"
    "ev_text (key_event Key_CapsLock [] NoModifier) = []"
    by (simp_all add: key_event_def key_defs)
  from C10_empty_text_ignored[of "running_window kEndless 0 2"
      "key_event Key_CapsLock [] NoModifier" 4] e
  show ?thesis
    by (simp add: four_items_nth sequence_qwer)
qed

section \<open>Session modes\<close>


lemma check_challenge_more [simp]:
  "training (check_challenge s) =
     (if mode s = kChallenge \<and> target_rounds s \<le> rounds_correct s then False else training s)"
  "stop_button_enabled (check_challenge s) =
     (if mode s = kChallenge \<and> target_rounds s \<le> rounds_correct s then False
      else stop_button_enabled s)"
  "target_label (check_challenge s) =
     (if mode s = kChallenge \<and> target_rounds s \<le> rounds_correct s then ChallengeCompleteText
      else target_label s)"
  by (simp_all add: check_challenge_def)

lemma track_key_more [simp]:
  "stop_button_enabled (track_key e s) = stop_button_enabled s"
  "history (track_key e s) = history s"
  "target_label (track_key e s) = target_label s"
  by (simp_all add: track_key_def)


lemma idle_window_fields [simp]:
  "mode (idle_window m lim tr) = m"
  "target_rounds (idle_window m lim tr) = tr"
  "time_limit_seconds (idle_window m lim tr) = lim"
  "all_items (idle_window m lim tr) = four_items"
  "items (idle_window m lim tr) = four_items"
  "\<not> training (idle_window m lim tr)"
  "\<not> paused (idle_window m lim tr)"
  by (simp_all add: idle_window_def)


subsection \<open>Challenge mode\<close>























lemma ShowCurrentItem_label [simp]:
  "target_label (ShowCurrentItem s) \<noteq> ChallengeCompleteText"
  "training (ShowCurrentItem s) = training s"
  by (simp_all add: ShowCurrentItem_def Let_def)

lemma NextItem_label [simp]:
  "(target_label (NextItem rnd s) = ChallengeCompleteText)
     = (items s = [] \<and> target_label s = ChallengeCompleteText)"
  by (simp add: NextItem_def)



lemma track_key_label_inv [simp]: "label_inv (track_key e s) = label_inv s"
  by (simp add: label_inv_def)














subsection \<open>Timed mode\<close>



lemma check_challenge_paused [simp]:
  "paused (check_challenge s) =
     (if mode s = kChallenge \<and> target_rounds s \<le> rounds_correct s then False else paused s)"
  by (simp add: check_challenge_def)


lemma track_key_timed [simp]:
  "timed_running (track_key e s) = timed_running s"
  "remaining_seconds (track_key e s) = remaining_seconds s"
  by (simp_all add: timed_running_def track_key_def)









section \<open>Elapsed time across pauses\<close>

text \<open>
  C1: the elapsed time the statistics use, after pausing and resuming. With one pause (run
  5 s, pause 5 s, run 5 s) it is the 10 s spent running. With a second pause (run 5 s more,
  pause 5 s, run 5 s) it is still 10 s, although the session has spent 15 s running:
  \<^verbatim>\<open>PauseTraining\<close> overwrites \<^verbatim>\<open>paused_elapsed_\<close> with the time since the last resume.
\<close>

theorem C1_second_pause_loses_time:
  "stats_elapsed_ms (run one_pause (idle_window kEndless 60 50)) = 10000
   \<and> time_spent_running one_pause (idle_window kEndless 60 50) = 10000
   \<and> stats_elapsed_ms (run two_pauses (idle_window kEndless 60 50)) = 10000
   \<and> time_spent_running two_pauses (idle_window kEndless 60 50) = 15000"
  by code_simp

end
